theory Spec2Isabelle
  imports Complex_Main
begin

section \<open>Values handled by ui-service/script.js\<close>

text \<open>
  The script receives its data from \<^verbatim>\<open>response.json()\<close>, so every value it inspects is a
  JSON value, or \<^verbatim>\<open>undefined\<close> when a property is read that the value does not have.

  A JavaScript string is a sequence of UTF-16 code units. It is modelled by its bytes in
  the generalised UTF-8 encoding (\<open>string\<close> is a list of 8-bit characters): text is
  encoded as in UTF-8, a surrogate pair as the four bytes of its code point, and a
  surrogate that is not part of a pair as the three bytes \<open>ED\<close>, \<open>A0\<close> to \<open>BF\<close>, \<open>80\<close> to
  \<open>BF\<close>, which UTF-8 itself never uses. A JavaScript
  number is modelled by its exact value, a rational, or one of the two infinities that
  \<^verbatim>\<open>JSON.parse\<close> yields for a literal beyond the binary64 range; \<^verbatim>\<open>NaN\<close> never comes out
  of \<^verbatim>\<open>JSON.parse\<close>, and the two zeros behave alike in every operation used here.
  An object is the list of its own properties in the order parsed, with unique keys.
\<close>

datatype jsnum = Finite rat | PosInfinity | NegInfinity

datatype json =
    JNull
  | JBool bool
  | JNumber jsnum
  | JString string
  | JArray "json list"
  | JObject "(string \<times> json) list"

text \<open>\<open>None\<close> is \<^verbatim>\<open>undefined\<close>.\<close>

type_synonym jsval = "json option"

text \<open>
  What can be thrown while the script runs: a \<^verbatim>\<open>TypeError\<close> of the engine (a property read
  on \<^verbatim>\<open>null\<close> or \<^verbatim>\<open>undefined\<close>, a call of something that is not a function, a failed
  conversion to a primitive), the \<^verbatim>\<open>SyntaxError\<close> with which \<^verbatim>\<open>response.json()\<close> rejects, the
  error with which \<^verbatim>\<open>fetch\<close> rejects, the \<^verbatim>\<open>Error\<close> that \<^verbatim>\<open>fetchRecommendations\<close> builds
  itself, with its \<^verbatim>\<open>status\<close> attached, and the \<^verbatim>\<open>URIError\<close> of \<^verbatim>\<open>encodeURIComponent\<close>. The
  second, third and fourth carry their message.
\<close>

datatype exn =
    TypeError
  | SyntaxError string
  | NetworkError string
  | RequestError nat string
  | URIError

text \<open>
  Some things are left to the engine by ECMAScript or depend on binary64 rounding, and
  are taken as parameters: the shortest round-trip decimal text of a number that is not
  a safe integer, whether a string converts to a number greater than zero, and the
  message texts the engine gives its own \<^verbatim>\<open>TypeError\<close> and \<^verbatim>\<open>URIError\<close>.
\<close>

record host =
  number_text :: "rat \<Rightarrow> string"
  string_positive :: "string \<Rightarrow> bool"
  type_error_text :: string
  uri_error_text :: string

subsection \<open>ToBoolean and property reads\<close>

fun truthy :: "jsval \<Rightarrow> bool" where
  "truthy None = False"
| "truthy (Some JNull) = False"
| "truthy (Some (JBool b)) = b"
| "truthy (Some (JNumber n)) = (n \<noteq> Finite 0)"
| "truthy (Some (JString s)) = (s \<noteq> [])"
| "truthy (Some (JArray xs)) = True"
| "truthy (Some (JObject kvs)) = True"

text \<open>
  \<^verbatim>\<open>v.k\<close> for the data properties the script reads (\<^verbatim>\<open>origin\<close>, \<^verbatim>\<open>city\<close>, \<^verbatim>\<open>notes\<close>,
  \<^verbatim>\<open>recommendations\<close>, \<^verbatim>\<open>mode\<close>, \<^verbatim>\<open>duration_minutes\<close>, \<^verbatim>\<open>cost_usd\<close>,
  \<^verbatim>\<open>environmental_impact_co2_kg\<close>, \<^verbatim>\<open>source_cloud\<close>, \<^verbatim>\<open>error\<close>, \<^verbatim>\<open>details\<close>). None of them is
  a property of a built-in prototype, so the read finds an own property of an object and
  is \<^verbatim>\<open>undefined\<close> on every other value; on \<^verbatim>\<open>null\<close> and \<^verbatim>\<open>undefined\<close> it throws.
\<close>

fun get_prop :: "jsval \<Rightarrow> string \<Rightarrow> exn + jsval" where
  "get_prop None k = Inl TypeError"
| "get_prop (Some JNull) k = Inl TypeError"
| "get_prop (Some (JObject kvs)) k = Inr (map_of kvs k)"
| "get_prop (Some v) k = Inr None"

subsection \<open>Numbers as text\<close>

definition digit_char :: "nat \<Rightarrow> char" where
  "digit_char d = ''0123456789'' ! d"

fun digits :: "nat \<Rightarrow> string" where
  "digits n = (if n < 10 then [digit_char n] else digits (n div 10) @ [digit_char (n mod 10)])"

declare digits.simps [simp del]

text \<open>
  \<^verbatim>\<open>Number::toString\<close>. An integer of magnitude below \<open>2^53\<close> prints as its decimal digits;
  the text of any other finite number is the host's.
\<close>

fun number_to_string :: "host \<Rightarrow> jsnum \<Rightarrow> string" where
  "number_to_string h PosInfinity = ''Infinity''"
| "number_to_string h NegInfinity = ''-Infinity''"
| "number_to_string h (Finite x) =
     (if of_int \<lfloor>x\<rfloor> = x \<and> \<bar>x\<bar> < 2 ^ 53
      then (if x < 0 then ''-'' else '''') @ digits (nat \<lfloor>\<bar>x\<bar>\<rfloor>)
      else number_text h x)"

text \<open>
  \<^verbatim>\<open>Number.prototype.toFixed\<close> with two fraction digits, step by step as ECMAScript
  defines it: a number that is not finite prints as \<^verbatim>\<open>Number::toString\<close> does; the sign is
  split off; from \<open>10^21\<close> on the text is that of \<^verbatim>\<open>Number::toString\<close>; below, \<open>n\<close> is the
  integer nearest to a hundred times the value (the larger of two), its digits are padded
  with zeros to three, and the point goes before the last two.
\<close>

definition fixed_digits :: "nat \<Rightarrow> string" where
  "fixed_digits n =
     (let m = (if n = 0 then ''0'' else digits n);
          k = length m;
          m' = (if k \<le> 2 then replicate (3 - k) CHR ''0'' @ m else m);
          k' = length m'
      in take (k' - 2) m' @ ''.'' @ drop (k' - 2) m')"

fun toFixed2 :: "host \<Rightarrow> jsnum \<Rightarrow> string" where
  "toFixed2 h PosInfinity = number_to_string h PosInfinity"
| "toFixed2 h NegInfinity = number_to_string h NegInfinity"
| "toFixed2 h (Finite x) =
     (let s = (if x < 0 then ''-'' else '''');
          a = \<bar>x\<bar>
      in if a \<ge> 10 ^ 21 then s @ number_to_string h (Finite a)
         else s @ fixed_digits (nat \<lfloor>a * 100 + 1 / 2\<rfloor>))"

text \<open>
  \<^verbatim>\<open>v.toFixed(2)\<close>: only a number has the method. On \<^verbatim>\<open>undefined\<close> and \<^verbatim>\<open>null\<close> the read
  throws; on a string, a boolean, an array or an object the property is \<^verbatim>\<open>undefined\<close> or
  a JSON value, and calling it throws.
\<close>

fun call_toFixed2 :: "host \<Rightarrow> jsval \<Rightarrow> exn + string" where
  "call_toFixed2 h (Some (JNumber n)) = Inr (toFixed2 h n)"
| "call_toFixed2 h v = Inl TypeError"

subsection \<open>ToString, as a template literal applies it\<close>

text \<open>
  An array prints its elements joined by commas, \<^verbatim>\<open>null\<close> elements as the empty string.
  A parsed object prints as \<^verbatim>\<open>[object Object]\<close> through \<^verbatim>\<open>Object.prototype.toString\<close>,
  unless it has an own property \<^verbatim>\<open>toString\<close>: that is a JSON value, not a function, and
  since \<^verbatim>\<open>valueOf\<close> gives no primitive either the conversion throws.
\<close>

fun to_str :: "host \<Rightarrow> json \<Rightarrow> exn + string"
  and join_elems :: "host \<Rightarrow> json list \<Rightarrow> exn + string" where
  "to_str h JNull = Inr ''null''"
| "to_str h (JBool b) = Inr (if b then ''true'' else ''false'')"
| "to_str h (JNumber n) = Inr (number_to_string h n)"
| "to_str h (JString s) = Inr s"
| "to_str h (JArray xs) = join_elems h xs"
| "to_str h (JObject kvs) =
     (if ''toString'' \<in> fst ` set kvs then Inl TypeError else Inr ''[object Object]'')"
| "join_elems h [] = Inr ''''"
| "join_elems h (x # xs) =
     (case (if x = JNull then Inr '''' else to_str h x) of
        Inl e \<Rightarrow> Inl e
      | Inr s \<Rightarrow>
          (if xs = [] then Inr s
           else (case join_elems h xs of Inl e \<Rightarrow> Inl e | Inr r \<Rightarrow> Inr (s @ '','' @ r))))"

fun to_string :: "host \<Rightarrow> jsval \<Rightarrow> exn + string" where
  "to_string h None = Inr ''undefined''"
| "to_string h (Some v) = to_str h v"

section \<open>The page\<close>

text \<open>A call of \<^verbatim>\<open>fetch\<close> with a URL and no options is a GET request.\<close>

record request =
  request_method :: string
  request_url :: string

text \<open>
  The elements the script holds, each with the properties the script reads or writes,
  the browser's local storage and the requests made through \<^verbatim>\<open>fetch\<close>. An element's
  \<^verbatim>\<open>innerHTML\<close> is the markup last assigned to it; the recommendation list is the
  sequence of its \<^verbatim>\<open>li\<close> children, each by the markup inside it. The option values of
  the preference dropdown come from index.html, which is not part of the sources, and
  are a field of the page.
\<close>

record page =
  destinationInput_value :: string
  preferenceSelect_value :: string
  preferenceSelect_options :: "string list"
  submitButton_disabled :: bool
  resultsArea_display :: string
  originInfo_innerHTML :: string
  notesInfo_innerHTML :: string
  notesInfo_display :: string
  recommendationList_items :: "string list"
  loading_display :: string
  error_textContent :: string
  error_display :: string
  localStorage :: "string \<rightharpoonup> string"
  fetched :: "request list"

definition PREFERENCE_STORAGE_KEY :: string where
  "PREFERENCE_STORAGE_KEY = ''transportPreference''"

subsection \<open>Preference store\<close>

text \<open>
  Assigning to the \<^verbatim>\<open>value\<close> of a dropdown selects the first option with that value;
  when there is none, no option stays selected and the value reads as the empty string.
\<close>

definition select_value :: "string list \<Rightarrow> string \<Rightarrow> string" where
  "select_value options v = (if v \<in> set options then v else '''')"

definition savePreference :: "page \<Rightarrow> page" where
  "savePreference p =
     p\<lparr>localStorage := (localStorage p)(PREFERENCE_STORAGE_KEY \<mapsto> preferenceSelect_value p)\<rparr>"

definition loadPreference :: "page \<Rightarrow> page" where
  "loadPreference p =
     (let savedPreference = localStorage p PREFERENCE_STORAGE_KEY
      in case savedPreference of
           None \<Rightarrow> p
         | Some v \<Rightarrow>
             (if v \<noteq> [] then p\<lparr>preferenceSelect_value := select_value (preferenceSelect_options p) v\<rparr>
              else p))"

subsection \<open>Sequencing of steps that can throw\<close>

fun and_then :: "exn + 'a \<Rightarrow> ('a \<Rightarrow> exn + 'b) \<Rightarrow> exn + 'b" where
  "and_then (Inl e) f = Inl e"
| "and_then (Inr x) f = f x"

subsection \<open>Comparison with zero\<close>

text \<open>
  \<^verbatim>\<open>v > 0\<close>. The operand is converted to a primitive, then to a number: \<^verbatim>\<open>undefined\<close> and
  an object give \<^verbatim>\<open>NaN\<close>, \<^verbatim>\<open>null\<close> gives zero, \<^verbatim>\<open>true\<close> one; a string is converted by the
  host, an array through its text. An object with an own \<^verbatim>\<open>toString\<close> property has no
  primitive value and the comparison throws.
\<close>

fun greater_than_zero :: "host \<Rightarrow> jsval \<Rightarrow> exn + bool" where
  "greater_than_zero h None = Inr False"
| "greater_than_zero h (Some JNull) = Inr False"
| "greater_than_zero h (Some (JBool b)) = Inr b"
| "greater_than_zero h (Some (JNumber (Finite x))) = Inr (x > 0)"
| "greater_than_zero h (Some (JNumber PosInfinity)) = Inr True"
| "greater_than_zero h (Some (JNumber NegInfinity)) = Inr False"
| "greater_than_zero h (Some (JString s)) = Inr (string_positive h s)"
| "greater_than_zero h (Some (JArray xs)) =
     and_then (join_elems h xs) (\<lambda>s. Inr (string_positive h s))"
| "greater_than_zero h (Some (JObject kvs)) =
     (if ''toString'' \<in> fst ` set kvs then Inl TypeError else Inr False)"

text \<open>
  \<^verbatim>\<open>v.length > 0\<close>: an array and a string have their length, an object may have an own
  property of that name, a boolean and a number have none.
\<close>

fun length_positive :: "host \<Rightarrow> jsval \<Rightarrow> exn + bool" where
  "length_positive h None = Inl TypeError"
| "length_positive h (Some JNull) = Inl TypeError"
| "length_positive h (Some (JArray xs)) = Inr (xs \<noteq> [])"
| "length_positive h (Some (JString s)) = Inr (s \<noteq> [])"
| "length_positive h (Some (JObject kvs)) = greater_than_zero h (map_of kvs ''length'')"
| "length_positive h (Some v) = Inr False"

section \<open>Result renderer\<close>

subsection \<open>displayError and clearResults\<close>

definition displayError :: "string \<Rightarrow> page \<Rightarrow> page" where
  "displayError message p =
     p\<lparr>error_textContent := ''Error: '' @ message, error_display := ''block''\<rparr>"

definition clearResults :: "page \<Rightarrow> page" where
  "clearResults p =
     p\<lparr>recommendationList_items := [],
       originInfo_innerHTML := '''',
       notesInfo_innerHTML := '''',
       error_textContent := '''',
       error_display := ''none'',
       resultsArea_display := ''none''\<rparr>"

subsection \<open>displayResults: origin\<close>

definition origin_detected :: "string \<Rightarrow> string" where
  "origin_detected city = ''<p><strong>Detected Origin:</strong> '' @ city @ ''</p>''"

definition origin_not_available :: string where
  "origin_not_available = ''<p>Origin information not available.</p>''"

text \<open>
  The condition \<^verbatim>\<open>data.origin && data.origin.city\<close> yields the city when the origin is
  truthy; the template then reads the same property again and converts it to text.
\<close>

definition display_origin :: "host \<Rightarrow> json \<Rightarrow> page \<Rightarrow> exn + page" where
  "display_origin h data p =
     and_then (get_prop (Some data) ''origin'') (\<lambda>origin.
     and_then (if truthy origin then get_prop origin ''city'' else Inr origin) (\<lambda>c.
       if truthy c
       then and_then (to_string h c) (\<lambda>city.
              Inr (p\<lparr>originInfo_innerHTML := origin_detected city\<rparr>))
       else Inr (p\<lparr>originInfo_innerHTML := origin_not_available\<rparr>)))"

subsection \<open>displayResults: notes\<close>

text \<open>The callback of \<^verbatim>\<open>notes.map\<close> wraps the text of each note in a paragraph.\<close>

fun note_paragraphs :: "host \<Rightarrow> json list \<Rightarrow> exn + string list" where
  "note_paragraphs h [] = Inr []"
| "note_paragraphs h (note # notes) =
     and_then (to_string h (Some note)) (\<lambda>s.
     and_then (note_paragraphs h notes) (\<lambda>ps.
       Inr ((''<p>'' @ s @ ''</p>'') # ps)))"

text \<open>
  Only an array has \<^verbatim>\<open>map\<close>; on a string or an object with a positive length the call
  throws. \<^verbatim>\<open>join('')\<close> concatenates the paragraphs.
\<close>

definition display_notes :: "host \<Rightarrow> json \<Rightarrow> page \<Rightarrow> exn + page" where
  "display_notes h data p =
     and_then (get_prop (Some data) ''notes'') (\<lambda>notes.
     and_then (if truthy notes then length_positive h notes else Inr False) (\<lambda>nonempty.
       if nonempty
       then (case notes of
               Some (JArray xs) \<Rightarrow>
                 and_then (note_paragraphs h xs) (\<lambda>ps.
                   Inr (p\<lparr>notesInfo_innerHTML := concat ps, notesInfo_display := ''block''\<rparr>))
             | _ \<Rightarrow> Inl TypeError)
       else Inr (p\<lparr>notesInfo_display := ''none''\<rparr>)))"

subsection \<open>displayResults: recommendations\<close>

definition car_icon :: string where "car_icon = [CHR 0xF0, CHR 0x9F, CHR 0x9A, CHR 0x97]"

definition bus_icon :: string where "bus_icon = [CHR 0xF0, CHR 0x9F, CHR 0x9A, CHR 0x8C]"

definition train_icon :: string where "train_icon = [CHR 0xF0, CHR 0x9F, CHR 0x9A, CHR 0x86]"

definition bicycle_icon :: string where "bicycle_icon = [CHR 0xF0, CHR 0x9F, CHR 0x9A, CHR 0xB2]"

definition walking_icon :: string where "walking_icon = [CHR 0xF0, CHR 0x9F, CHR 0x9A, CHR 0xB6]"

definition scooter_icon :: string where "scooter_icon = [CHR 0xF0, CHR 0x9F, CHR 0x9B, CHR 0xB4]"

text \<open>The chain of \<^verbatim>\<open>rec.mode === '...'\<close> tests; \<^verbatim>\<open>===\<close> holds for that very string only.\<close>

definition mode_icon :: "jsval \<Rightarrow> string" where
  "mode_icon mode =
     (if mode = Some (JString ''car'') then car_icon
      else if mode = Some (JString ''bus'') then bus_icon
      else if mode = Some (JString ''train'') then train_icon
      else if mode = Some (JString ''bicycle'') then bicycle_icon
      else if mode = Some (JString ''walking'') then walking_icon
      else if mode = Some (JString ''scooter'') then scooter_icon
      else '''')"

text \<open>The template literal assigned to \<^verbatim>\<open>li.innerHTML\<close>, with its line breaks and indentation.\<close>

definition li_innerHTML :: "string \<Rightarrow> string \<Rightarrow> string \<Rightarrow> string \<Rightarrow> string \<Rightarrow> string \<Rightarrow> string" where
  "li_innerHTML icon mode duration cost co2 source =
     ''\<newline>                <div><span class=\"mode-icon\">'' @ icon @ ''</span><strong>Mode:</strong> '' @ mode @ ''</div>''
     @ ''\<newline>                <div><strong>Duration:</strong> '' @ duration @ '' minutes</div>''
     @ ''\<newline>                <div><strong>Est. Cost:</strong> $'' @ cost @ ''</div>''
     @ ''\<newline>                <div><strong>CO2 Emissions:</strong> '' @ co2 @ '' kg</div>''
     @ ''\<newline>                <div class=\"source\">(Source: '' @ source @ '')</div>''
     @ ''\<newline>            ''"

text \<open>The body of the \<^verbatim>\<open>forEach\<close> callback up to the markup of the new \<^verbatim>\<open>li\<close>.\<close>

definition item_markup :: "host \<Rightarrow> json \<Rightarrow> exn + string" where
  "item_markup h rec =
     and_then (get_prop (Some rec) ''mode'') (\<lambda>mode.
     and_then (to_string h mode) (\<lambda>mode_text.
     and_then (get_prop (Some rec) ''duration_minutes'') (\<lambda>duration.
     and_then (to_string h duration) (\<lambda>duration_text.
     and_then (get_prop (Some rec) ''cost_usd'') (\<lambda>cost.
     and_then (call_toFixed2 h cost) (\<lambda>cost_text.
     and_then (get_prop (Some rec) ''environmental_impact_co2_kg'') (\<lambda>co2.
     and_then (call_toFixed2 h co2) (\<lambda>co2_text.
     and_then (get_prop (Some rec) ''source_cloud'') (\<lambda>source.
     and_then (to_string h (if truthy source then source else Some (JString ''Unknown Cloud'')))
       (\<lambda>source_text.
         Inr (li_innerHTML (mode_icon mode) mode_text duration_text cost_text co2_text
                source_text)))))))))))"

text \<open>
  \<^verbatim>\<open>forEach\<close>: one \<^verbatim>\<open>li\<close> is appended per element, in order. When the callback throws, the
  loop stops and the items appended so far stay in the list.
\<close>

fun append_items :: "host \<Rightarrow> json list \<Rightarrow> page \<Rightarrow> exn option \<times> page" where
  "append_items h [] p = (None, p)"
| "append_items h (rec # recs) p =
     (case item_markup h rec of
        Inl e \<Rightarrow> (Some e, p)
      | Inr li \<Rightarrow>
          append_items h recs (p\<lparr>recommendationList_items := recommendationList_items p @ [li]\<rparr>))"

definition no_recommendations :: string where
  "no_recommendations = ''No recommendations found matching your criteria.''"

definition display_recommendations :: "host \<Rightarrow> json \<Rightarrow> page \<Rightarrow> exn option \<times> page" where
  "display_recommendations h data p =
     (let p0 = p\<lparr>recommendationList_items := []\<rparr> in
      case get_prop (Some data) ''recommendations'' of
        Inl e \<Rightarrow> (Some e, p0)
      | Inr recs \<Rightarrow>
          (case (if truthy recs then length_positive h recs else Inr False) of
             Inl e \<Rightarrow> (Some e, p0)
           | Inr nonempty \<Rightarrow>
               if nonempty
               then (case recs of
                       Some (JArray xs) \<Rightarrow> append_items h xs p0
                     | _ \<Rightarrow> (Some TypeError, p0))
               else (None, p0\<lparr>recommendationList_items := [no_recommendations]\<rparr>)))"

subsection \<open>displayResults\<close>

text \<open>
  The three parts in order. The result is the exception thrown, if any, and the page as
  the statements executed up to there have left it.
\<close>

definition displayResults :: "host \<Rightarrow> json \<Rightarrow> page \<Rightarrow> exn option \<times> page" where
  "displayResults h data p =
     (case display_origin h data p of
        Inl e \<Rightarrow> (Some e, p)
      | Inr p1 \<Rightarrow>
          (case display_notes h data p1 of
             Inl e \<Rightarrow> (Some e, p1)
           | Inr p2 \<Rightarrow> display_recommendations h data p2))"

section \<open>Recommendation client\<close>

subsection \<open>String.prototype.trim\<close>

text \<open>
  The code points ECMAScript counts as white space or line terminator, each by its UTF-8
  bytes: U+0009 to U+000D, U+0020, U+00A0, U+1680, U+2000 to U+200A, U+2028, U+2029,
  U+202F, U+205F, U+3000 and U+FEFF.
\<close>

definition white_space :: "string list" where
  "white_space =
     [[CHR 0x09], [CHR 0x0A], [CHR 0x0B], [CHR 0x0C], [CHR 0x0D], [CHR 0x20],
      [CHR 0xC2, CHR 0xA0],
      [CHR 0xE1, CHR 0x9A, CHR 0x80],
      [CHR 0xE2, CHR 0x80, CHR 0x80], [CHR 0xE2, CHR 0x80, CHR 0x81],
      [CHR 0xE2, CHR 0x80, CHR 0x82], [CHR 0xE2, CHR 0x80, CHR 0x83],
      [CHR 0xE2, CHR 0x80, CHR 0x84], [CHR 0xE2, CHR 0x80, CHR 0x85],
      [CHR 0xE2, CHR 0x80, CHR 0x86], [CHR 0xE2, CHR 0x80, CHR 0x87],
      [CHR 0xE2, CHR 0x80, CHR 0x88], [CHR 0xE2, CHR 0x80, CHR 0x89],
      [CHR 0xE2, CHR 0x80, CHR 0x8A],
      [CHR 0xE2, CHR 0x80, CHR 0xA8], [CHR 0xE2, CHR 0x80, CHR 0xA9],
      [CHR 0xE2, CHR 0x80, CHR 0xAF],
      [CHR 0xE2, CHR 0x81, CHR 0x9F],
      [CHR 0xE3, CHR 0x80, CHR 0x80],
      [CHR 0xEF, CHR 0xBB, CHR 0xBF]]"

text \<open>The first of the given byte sequences that the string starts with.\<close>

definition leading :: "string list \<Rightarrow> string \<Rightarrow> string option" where
  "leading ws s = find (\<lambda>w. w \<noteq> [] \<and> take (length w) s = w) ws"

function strip_leading :: "string list \<Rightarrow> string \<Rightarrow> string" where
  "strip_leading ws s =
     (case leading ws s of
        None \<Rightarrow> s
      | Some w \<Rightarrow> strip_leading ws (drop (length w) s))"
  by pat_completeness auto
termination
proof (relation "measure (\<lambda>(ws, s). length s)")
  show "wf (measure (\<lambda>(ws, s). length s))" by simp
next
  fix ws :: "string list" and s w :: string
  assume "leading ws s = Some w"
  then have w: "w \<noteq> []" "take (length w) s = w"
    by (auto simp: leading_def find_Some_iff)
  then have "s \<noteq> []" by auto
  with w show "((ws, drop (length w) s), (ws, s)) \<in> measure (\<lambda>(ws, s). length s)"
    by (cases w) auto
qed

declare strip_leading.simps [simp del]

text \<open>White space is taken off the front, then off the end.\<close>

definition trim :: "string \<Rightarrow> string" where
  "trim s = rev (strip_leading (map rev white_space) (rev (strip_leading white_space s)))"

subsection \<open>encodeURIComponent\<close>

text \<open>
  The function throws a \<^verbatim>\<open>URIError\<close> when the string has a surrogate that is not part of
  a pair: in the encoding used here, a byte \<open>ED\<close> followed by a byte from \<open>A0\<close> on.
  Otherwise letters, digits and \<^verbatim>\<open>- _ . ! ~ * ' ( )\<close> stay, and every other character is
  replaced by the escapes of its UTF-8 bytes, \<^verbatim>\<open>%\<close> and two upper-case hexadecimal digits
  each.
\<close>

fun lone_surrogate :: "string \<Rightarrow> bool" where
  "lone_surrogate (a # b # s) =
     ((a = CHR 0xED \<and> (of_char b :: nat) \<ge> 160) \<or> lone_surrogate (b # s))"
| "lone_surrogate s = False"

definition unreserved :: "char \<Rightarrow> bool" where
  "unreserved c \<longleftrightarrow>
     c \<in> set (''ABCDEFGHIJKLMNOPQRSTUVWXYZabcdefghijklmnopqrstuvwxyz0123456789-_.!~*()''
              @ [CHR 0x27])"

definition hex_digit :: "nat \<Rightarrow> char" where
  "hex_digit d = ''0123456789ABCDEF'' ! d"

definition escape :: "char \<Rightarrow> string" where
  "escape c = [CHR ''%'', hex_digit (of_char c div 16), hex_digit (of_char c mod 16)]"

definition encodeURIComponent :: "string \<Rightarrow> exn + string" where
  "encodeURIComponent s =
     (if lone_surrogate s then Inl URIError
      else Inr (concat (map (\<lambda>c. if unreserved c then [c] else escape c) s)))"

subsection \<open>fetchRecommendations\<close>

text \<open>
  How the network answers one \<^verbatim>\<open>fetch\<close>: the promise rejects with a message, or resolves
  with a response, of which the script reads the status and the body through
  \<^verbatim>\<open>response.json()\<close>; that rejects with a message when the body cannot be read as JSON.
\<close>

datatype parsed = NotJSON string | JSON json

record response =
  status :: nat
  response_json :: parsed

datatype settled = Rejected string | Resolved response

text \<open>\<^verbatim>\<open>response.ok\<close>: the status is in the range 200 to 299.\<close>

definition ok :: "response \<Rightarrow> bool" where
  "ok r \<longleftrightarrow> 200 \<le> status r \<and> status r \<le> 299"

text \<open>
  The template literal of the URL: the destination is encoded first, then the
  preference; an exception of either leaves no URL.
\<close>

definition relativeUrl :: "string \<Rightarrow> string \<Rightarrow> exn + string" where
  "relativeUrl destination preference =
     and_then (encodeURIComponent destination) (\<lambda>d.
     and_then (encodeURIComponent preference) (\<lambda>p.
       Inr (''/api/route?destination='' @ d @ ''&preference='' @ p)))"

text \<open>
  The part of \<^verbatim>\<open>fetchRecommendations\<close> that runs once \<^verbatim>\<open>fetch\<close> has settled: what the
  function returns (\<open>Inr\<close>) or throws (\<open>Inl\<close>). An exception inside the \<^verbatim>\<open>try\<close> block leaves
  \<^verbatim>\<open>errorData.message\<close> at the status text. \<^verbatim>\<open>new Error(m)\<close> converts \<open>m\<close> to a string.
\<close>

definition fetchRecommendations :: "host \<Rightarrow> settled \<Rightarrow> exn + json" where
  "fetchRecommendations h answer =
     (case answer of
        Rejected m \<Rightarrow> Inl (NetworkError m)
      | Resolved response \<Rightarrow>
          if \<not> ok response
          then
            (let fallback = Some (JString (''Server responded with status: ''
                                           @ digits (status response)));
                 message =
                   (case response_json response of
                      NotJSON m \<Rightarrow> fallback
                    | JSON body \<Rightarrow>
                        (case get_prop (Some body) ''error'' of
                           Inl e \<Rightarrow> fallback
                         | Inr error \<Rightarrow>
                             if truthy error then error
                             else (case get_prop (Some body) ''details'' of
                                     Inl e \<Rightarrow> fallback
                                   | Inr details \<Rightarrow>
                                       if truthy details then details else fallback)))
             in and_then (to_string h message) (\<lambda>text.
                  Inl (RequestError (status response) text)))
          else (case response_json response of
                  NotJSON m \<Rightarrow> Inl (SyntaxError m)
                | JSON body \<Rightarrow> Inr body))"

section \<open>Form controller\<close>

text \<open>\<^verbatim>\<open>error.message\<close> of what was caught.\<close>

fun message_of :: "host \<Rightarrow> exn \<Rightarrow> string" where
  "message_of h TypeError = type_error_text h"
| "message_of h (SyntaxError m) = m"
| "message_of h (NetworkError m) = m"
| "message_of h (RequestError n m) = m"
| "message_of h URIError = uri_error_text h"

text \<open>
  The submit listener runs up to its first \<^verbatim>\<open>await\<close> and is resumed when the awaited
  promise has settled. \<open>submit_begin\<close> is the first part. The listener has returned, at
  the validation of the destination; or it waits with the request sent; or it waits
  with no request sent, because \<^verbatim>\<open>fetchRecommendations\<close> threw while it built the URL, and
  the promise it awaits is rejected already.
\<close>

datatype listener = Returned page | Awaiting page | Failing exn page

definition submit_begin :: "page \<Rightarrow> listener" where
  "submit_begin p =
     (let destination = trim (destinationInput_value p);
          preference = preferenceSelect_value p
      in if destination = []
         then Returned (displayError ''Please enter a destination city.'' p)
         else
           (let loading = (clearResults p)
                            \<lparr>resultsArea_display := ''block'',
                             loading_display := ''flex'',
                             submitButton_disabled := True\<rparr>
            in case relativeUrl destination preference of
                 Inl e \<Rightarrow> Failing e loading
               | Inr url \<Rightarrow>
                   Awaiting
                     (loading\<lparr>fetched := fetched p
                                @ [\<lparr>request_method = ''GET'', request_url = url\<rparr>]\<rparr>)))"

text \<open>The \<^verbatim>\<open>catch\<close> clause, for what the \<^verbatim>\<open>try\<close> block has thrown, and the \<^verbatim>\<open>finally\<close> clause.\<close>

definition finish :: "host \<Rightarrow> exn option \<Rightarrow> page \<Rightarrow> page" where
  "finish h thrown p1 =
     (let p2 = (case thrown of
                  None \<Rightarrow> p1
                | Some error \<Rightarrow>
                    displayError
                      (if message_of h error \<noteq> [] then message_of h error
                       else ''An unknown error occurred.'') p1)
      in p2\<lparr>loading_display := ''none'', submitButton_disabled := False\<rparr>)"

text \<open>
  \<open>submit_resume\<close> is the rest of a listener that has sent its request: the \<^verbatim>\<open>try\<close> block
  from the settled request on, then the two clauses, on the page as it is then.
  \<open>submit_fail\<close> is the rest of a listener that waits on the exception \<open>e\<close>.
\<close>

definition submit_resume :: "host \<Rightarrow> settled \<Rightarrow> page \<Rightarrow> page" where
  "submit_resume h answer p =
     (let (thrown, p1) =
            (case fetchRecommendations h answer of
               Inl e \<Rightarrow> (Some e, p)
             | Inr data \<Rightarrow> displayResults h data p)
      in finish h thrown p1)"

definition submit_fail :: "host \<Rightarrow> exn \<Rightarrow> page \<Rightarrow> page" where
  "submit_fail h e p = finish h (Some e) p"

text \<open>One submit from start to end, when nothing else happens on the page meanwhile.\<close>

definition submit :: "host \<Rightarrow> settled \<Rightarrow> page \<Rightarrow> page" where
  "submit h answer p =
     (case submit_begin p of
        Returned p' \<Rightarrow> p'
      | Awaiting p' \<Rightarrow> submit_resume h answer p'
      | Failing e p' \<Rightarrow> submit_fail h e p')"

section \<open>Inputs for evaluation\<close>

text \<open>
  A host to evaluate examples on. The examples print safe integers and amounts with two
  decimals only and compare no string with a number, so the first two components are
  never consulted there; they are constant functions.
\<close>

definition example_host :: host where
  "example_host =
     \<lparr>number_text = (\<lambda>x. ''''),
      string_positive = (\<lambda>s. False),
      type_error_text = ''Cannot read properties of undefined'',
      uri_error_text = ''URI malformed''\<rparr>"

text \<open>
  A page to evaluate examples on, as index.html (which is not among the sources) would
  load it according to the README: the dropdown offers the three preferences and shows
  the first, nothing is displayed yet, nothing is stored and nothing was sent.
\<close>

definition example_page :: page where
  "example_page =
     \<lparr>destinationInput_value = '''',
      preferenceSelect_value = ''fastest'',
      preferenceSelect_options = [''fastest'', ''cheapest'', ''greenest''],
      submitButton_disabled = False,
      resultsArea_display = ''none'',
      originInfo_innerHTML = '''',
      notesInfo_innerHTML = '''',
      notesInfo_display = ''none'',
      recommendationList_items = [],
      loading_display = ''none'',
      error_textContent = '''',
      error_display = ''none'',
      localStorage = Map.empty,
      fetched = []\<rparr>"

section \<open>Notions used in the statements\<close>

text \<open>The ASCII white space characters: tab, line feed, vertical tab, form feed, carriage return, space.\<close>

definition blank :: "char \<Rightarrow> bool" where
  "blank c \<longleftrightarrow> c \<in> set [CHR 0x09, CHR 0x0A, CHR 0x0B, CHR 0x0C, CHR 0x0D, CHR 0x20]"





text \<open>
  The response of the documented contract: an origin with an optional city, notes and
  recommendations, each of which may be missing; a recommendation with its mode, its three
  numbers and an optional source label. The encoders give the JSON value such a response
  arrives as, leaving a missing member out.
\<close>

record Origin =
  ip_address :: "string option"
  city :: "string option"

record Recommendation =
  mode :: string
  duration_minutes :: rat
  cost_usd :: rat
  environmental_impact_co2_kg :: rat
  source_cloud :: "string option"

record RouteResponse =
  origin :: "Origin option"
  "notes" :: "string list option"
  recommendations :: "Recommendation list option"

definition optional :: "string \<Rightarrow> 'a option \<Rightarrow> ('a \<Rightarrow> json) \<Rightarrow> (string \<times> json) list" where
  "optional k v f = (case v of None \<Rightarrow> [] | Some x \<Rightarrow> [(k, f x)])"

definition origin_json :: "Origin \<Rightarrow> json" where
  "origin_json og =
     JObject (optional ''ip_address'' (ip_address og) JString @ optional ''city'' (city og) JString)"

definition recommendation_json :: "Recommendation \<Rightarrow> json" where
  "recommendation_json r =
     JObject ([(''mode'', JString (mode r)),
               (''duration_minutes'', JNumber (Finite (duration_minutes r))),
               (''cost_usd'', JNumber (Finite (cost_usd r))),
               (''environmental_impact_co2_kg'', JNumber (Finite (environmental_impact_co2_kg r)))]
              @ optional ''source_cloud'' (source_cloud r) JString)"

definition route_response_json :: "RouteResponse \<Rightarrow> json" where
  "route_response_json resp =
     JObject (optional ''origin'' (origin resp) origin_json
              @ optional ''notes'' (notes resp) (\<lambda>ns. JArray (map JString ns))
              @ optional ''recommendations'' (recommendations resp)
                  (\<lambda>rs. JArray (map recommendation_json rs)))"

text \<open>The six recognised modes and their icons, each by the UTF-8 bytes of the emoji.\<close>

definition icon_table :: "(string \<times> string) list" where
  "icon_table =
     [(''car'', [CHR 0xF0, CHR 0x9F, CHR 0x9A, CHR 0x97]),
      (''bus'', [CHR 0xF0, CHR 0x9F, CHR 0x9A, CHR 0x8C]),
      (''train'', [CHR 0xF0, CHR 0x9F, CHR 0x9A, CHR 0x86]),
      (''bicycle'', [CHR 0xF0, CHR 0x9F, CHR 0x9A, CHR 0xB2]),
      (''walking'', [CHR 0xF0, CHR 0x9F, CHR 0x9A, CHR 0xB6]),
      (''scooter'', [CHR 0xF0, CHR 0x9F, CHR 0x9B, CHR 0xB4])]"

definition icon_of :: "string \<Rightarrow> string" where
  "icon_of m = (case map_of icon_table m of Some icon \<Rightarrow> icon | None \<Rightarrow> '''')"

text \<open>
  An amount with exactly two decimal places: the amount is rounded to the nearest
  hundredth, a half away from zero; the text is the sign, the digits of the whole part,
  a point, and the two digits of the hundredths.
\<close>

definition two_decimals :: "rat \<Rightarrow> string" where
  "two_decimals x =
     (let hundredths = nat \<lfloor>\<bar>x\<bar> * 100 + 1 / 2\<rfloor>
      in (if x < 0 then ''-'' else '''')
         @ digits (hundredths div 100)
         @ ''.''
         @ [digit_char (hundredths div 10 mod 10), digit_char (hundredths mod 10)])"

definition source_label :: "string option \<Rightarrow> string" where
  "source_label s = (case s of None \<Rightarrow> ''Unknown Cloud'' | Some l \<Rightarrow> if l = [] then ''Unknown Cloud'' else l)"

text \<open>The amounts for which \<^verbatim>\<open>toFixed\<close> does not switch to the exponent notation.\<close>

definition fixed_range :: "Recommendation \<Rightarrow> bool" where
  "fixed_range r \<longleftrightarrow>
     \<bar>cost_usd r\<bar> < 10 ^ 21 \<and> \<bar>environmental_impact_co2_kg r\<bar> < 10 ^ 21"

text \<open>
  The entry the script builds for a recommendation of this shape, with the two amounts as
  \<^verbatim>\<open>toFixed(2)\<close> prints them, whatever they are.
\<close>

definition markup :: "host \<Rightarrow> Recommendation \<Rightarrow> string" where
  "markup h r =
     li_innerHTML (icon_of (mode r)) (mode r)
       (number_to_string h (Finite (duration_minutes r)))
       (toFixed2 h (Finite (cost_usd r)))
       (toFixed2 h (Finite (environmental_impact_co2_kg r)))
       (source_label (source_cloud r))"

text \<open>
  The payloads that \<open>displayResults\<close> renders without an exception. A member of a value
  is its own property if the value is an object, and missing otherwise. A value is
  printable when its conversion to a string does not throw: it is no object with an own
  \<^verbatim>\<open>toString\<close> member, and no array with such an object among its elements, at any depth
  of arrays.
\<close>

definition field :: "json \<Rightarrow> string \<Rightarrow> jsval" where
  "field v k = (case v of JObject kvs \<Rightarrow> map_of kvs k | _ \<Rightarrow> None)"

fun printable :: "json \<Rightarrow> bool" where
  "printable (JArray xs) = list_all printable xs"
| "printable (JObject kvs) = (''toString'' \<notin> fst ` set kvs)"
| "printable v = True"

definition printable_value :: "jsval \<Rightarrow> bool" where
  "printable_value v = (case v of None \<Rightarrow> True | Some x \<Rightarrow> printable x)"

definition numeric :: "jsval \<Rightarrow> bool" where
  "numeric v = (case v of Some (JNumber n) \<Rightarrow> True | _ \<Rightarrow> False)"

text \<open>
  A recommendation entry: its \<^verbatim>\<open>cost_usd\<close> and its \<^verbatim>\<open>environmental_impact_co2_kg\<close> are
  numbers (so the entry is an object), and its \<^verbatim>\<open>mode\<close>, \<^verbatim>\<open>duration_minutes\<close> and
  \<^verbatim>\<open>source_cloud\<close> are printable or missing.
\<close>

definition entry_shape :: "json \<Rightarrow> bool" where
  "entry_shape rec \<longleftrightarrow>
     printable_value (field rec ''mode'')
     \<and> printable_value (field rec ''duration_minutes'')
     \<and> numeric (field rec ''cost_usd'')
     \<and> numeric (field rec ''environmental_impact_co2_kg'')
     \<and> printable_value (field rec ''source_cloud'')"

text \<open>
  The notes and the recommendations: missing or falsy; or a boolean or a number, which
  have no length; or an array of elements of the given kind; or an object whose \<^verbatim>\<open>length\<close>
  member is not greater than zero. A string that is not empty is none of these.
\<close>

definition sequence_shape :: "host \<Rightarrow> (json \<Rightarrow> bool) \<Rightarrow> jsval \<Rightarrow> bool" where
  "sequence_shape h element v =
     (case v of
        None \<Rightarrow> True
      | Some JNull \<Rightarrow> True
      | Some (JBool b) \<Rightarrow> True
      | Some (JNumber n) \<Rightarrow> True
      | Some (JString s) \<Rightarrow> s = []
      | Some (JArray xs) \<Rightarrow> list_all element xs
      | Some (JObject kvs) \<Rightarrow> greater_than_zero h (map_of kvs ''length'') = Inr False)"

text \<open>The city of the origin of a payload, missing when the origin is no object.\<close>

definition origin_city :: "json \<Rightarrow> jsval" where
  "origin_city data = (case field data ''origin'' of None \<Rightarrow> None | Some og \<Rightarrow> field og ''city'')"

definition payload_shape :: "host \<Rightarrow> json \<Rightarrow> bool" where
  "payload_shape h data \<longleftrightarrow>
     data \<noteq> JNull
     \<and> printable_value (origin_city data)
     \<and> sequence_shape h printable (field data ''notes'')
     \<and> sequence_shape h entry_shape (field data ''recommendations'')"

text \<open>
  The message of a failed request, as far as the body decides it: a member of the parsed
  body is textual when it is missing or a string; the message is the \<^verbatim>\<open>error\<close> member when
  that is a non-empty string, else the \<^verbatim>\<open>details\<close> member when that is a non-empty string,
  else the text with the status. A body that is not JSON, or not an object, has no member.
\<close>

definition body_member :: "parsed \<Rightarrow> string \<Rightarrow> jsval" where
  "body_member b k = (case b of NotJSON m \<Rightarrow> None | JSON v \<Rightarrow> field v k)"

definition textual :: "jsval \<Rightarrow> bool" where
  "textual v = (case v of None \<Rightarrow> True | Some (JString s) \<Rightarrow> True | Some _ \<Rightarrow> False)"

definition non_empty_text :: "jsval \<Rightarrow> string option" where
  "non_empty_text v =
     (case v of Some (JString s) \<Rightarrow> if s = [] then None else Some s | _ \<Rightarrow> None)"

definition failure_message :: "response \<Rightarrow> string" where
  "failure_message r =
     (case non_empty_text (body_member (response_json r) ''error'') of
        Some e \<Rightarrow> e
      | None \<Rightarrow>
          (case non_empty_text (body_member (response_json r) ''details'') of
             Some d \<Rightarrow> d
           | None \<Rightarrow> ''Server responded with status: '' @ digits (status r)))"

subsection \<open>Values for evaluation\<close>

text \<open>The success body of the specification's example.\<close>

definition example_response :: RouteResponse where
  "example_response =
     \<lparr>origin = Some \<lparr>ip_address = None, city = Some ''Paris''\<rparr>,
      notes = Some [],
      recommendations =
        Some [\<lparr>mode = ''car'', duration_minutes = 120, cost_usd = 51 / 2,
               environmental_impact_co2_kg = 63 / 4, source_cloud = Some ''GCP''\<rparr>]\<rparr>"

text \<open>
  The same recommendation without its \<^verbatim>\<open>cost_usd\<close>, and a bus ride whose \<^verbatim>\<open>cost_usd\<close> is a
  string.
\<close>

definition car_without_cost :: json where
  "car_without_cost =
     JObject [(''mode'', JString ''car''),
              (''duration_minutes'', JNumber (Finite 120)),
              (''environmental_impact_co2_kg'', JNumber (Finite (63 / 4))),
              (''source_cloud'', JString ''GCP'')]"

definition bus_with_text_cost :: json where
  "bus_with_text_cost =
     JObject [(''mode'', JString ''bus''),
              (''duration_minutes'', JNumber (Finite 45)),
              (''cost_usd'', JString ''3.50''),
              (''environmental_impact_co2_kg'', JNumber (Finite (6 / 5))),
              (''source_cloud'', JString ''Azure'')]"

section \<open>Lemmas\<close>

subsection \<open>Steps that can throw\<close>

lemma and_then_Inr_iff: "and_then m f = Inr y \<longleftrightarrow> (\<exists>x. m = Inr x \<and> f x = Inr y)"
  by (cases m) auto

lemma and_then_Inl_iff:
  "and_then m f = Inl e \<longleftrightarrow> m = Inl e \<or> (\<exists>x. m = Inr x \<and> f x = Inl e)"
  by (cases m) auto

subsection \<open>The renderer sends nothing\<close>









subsection \<open>White space trims to nothing\<close>

lemma leading_Nil: "leading ws [] = None"
  by (auto simp: leading_def find_None_iff)

lemma strip_leading_Nil: "strip_leading ws [] = []"
  by (subst strip_leading.simps) (simp add: leading_Nil)

lemma strip_leading_white:
  "list_all (\<lambda>c. [c] \<in> set ws) s \<Longrightarrow> strip_leading ws s = []"
proof (induction s rule: length_induct)
  case (1 s)
  show ?case
  proof (cases s)
    case Nil
    then show ?thesis by (simp add: strip_leading_Nil)
  next
    case (Cons c cs)
    with "1.prems" have "[c] \<in> set ws" by simp
    then have "leading ws s \<noteq> None"
      using Cons by (auto simp: leading_def find_None_iff)
    then obtain w where w: "leading ws s = Some w" by auto
    then have "w \<noteq> []" by (auto simp: leading_def find_Some_iff)
    then have short: "length (drop (length w) s) < length s"
      using Cons by (cases w) auto
    have "list_all (\<lambda>c. [c] \<in> set ws) (drop (length w) s)"
      using "1.prems" by (auto simp: list_all_iff dest: in_set_dropD)
    with "1.IH" short have "strip_leading ws (drop (length w) s) = []" by blast
    with w show ?thesis by (subst strip_leading.simps) simp
  qed
qed

lemma trim_blank: "list_all blank s \<Longrightarrow> trim s = []"
proof -
  assume "list_all blank s"
  then have "list_all (\<lambda>c. [c] \<in> set white_space) s"
    by (auto simp: list_all_iff blank_def white_space_def)
  then have "strip_leading white_space s = []" by (rule strip_leading_white)
  then show ?thesis by (simp add: trim_def strip_leading_Nil)
qed

subsection \<open>An encoded component holds no delimiter of the query string\<close>










subsection \<open>Digits and amounts\<close>

lemma digit_char_0: "digit_char 0 = CHR ''0''"
  by (simp add: digit_char_def)

lemma digits_small: "n < 10 \<Longrightarrow> digits n = [digit_char n]"
  by (subst digits.simps) simp

lemma digits_step: "10 \<le> n \<Longrightarrow> digits n = digits (n div 10) @ [digit_char (n mod 10)]"
  by (subst digits.simps) simp

lemma digits_two: "10 \<le> n \<Longrightarrow> n < 100 \<Longrightarrow> digits n = [digit_char (n div 10), digit_char (n mod 10)]"
  by (simp add: digits_step digits_small)

lemma digits_hundreds:
  "100 \<le> n \<Longrightarrow> digits n = digits (n div 100) @ [digit_char (n div 10 mod 10), digit_char (n mod 10)]"
proof -
  assume n: "100 \<le> n"
  then have "10 \<le> n div 10" by simp
  then have "digits (n div 10) = digits (n div 10 div 10) @ [digit_char (n div 10 mod 10)]"
    by (rule digits_step)
  moreover have "n div 10 div 10 = n div 100" by (simp add: div_mult2_eq)
  ultimately show ?thesis using n by (simp add: digits_step)
qed

lemma digits_not_Nil: "digits n \<noteq> []"
  by (subst digits.simps) simp

lemma fixed_digits_eq:
  "fixed_digits n = digits (n div 100) @ ''.'' @ [digit_char (n div 10 mod 10), digit_char (n mod 10)]"
proof -
  consider "n = 0" | "0 < n" "n < 10" | "10 \<le> n" "n < 100" | "100 \<le> n" by linarith
  then show ?thesis
  proof cases
    case 1
    then show ?thesis by (simp add: fixed_digits_def digits_small digit_char_0)
  next
    case 2
    then show ?thesis by (simp add: fixed_digits_def digits_small digit_char_0 numeral_3_eq_3)
  next
    case 3
    then show ?thesis
      by (simp add: fixed_digits_def digits_two digits_small digit_char_0 numeral_3_eq_3)
  next
    case 4
    then show ?thesis by (simp add: fixed_digits_def digits_hundreds digits_not_Nil Let_def)
  qed
qed

lemma toFixed2_two_decimals:
  "\<bar>x\<bar> < 10 ^ 21 \<Longrightarrow> toFixed2 h (Finite x) = two_decimals x"
  by (simp add: two_decimals_def fixed_digits_eq Let_def)

subsection \<open>Rendering a response of the documented shape\<close>

lemma mode_icon_table: "mode_icon (Some (JString m)) = icon_of m"
  by (simp add: mode_icon_def icon_of_def icon_table_def car_icon_def bus_icon_def
        train_icon_def bicycle_icon_def walking_icon_def scooter_icon_def)

lemma recommendation_props:
  "get_prop (Some (recommendation_json r)) ''mode'' = Inr (Some (JString (mode r)))"
  "get_prop (Some (recommendation_json r)) ''duration_minutes''
     = Inr (Some (JNumber (Finite (duration_minutes r))))"
  "get_prop (Some (recommendation_json r)) ''cost_usd'' = Inr (Some (JNumber (Finite (cost_usd r))))"
  "get_prop (Some (recommendation_json r)) ''environmental_impact_co2_kg''
     = Inr (Some (JNumber (Finite (environmental_impact_co2_kg r))))"
  "get_prop (Some (recommendation_json r)) ''source_cloud''
     = Inr (map_option JString (source_cloud r))"
  by (simp_all add: recommendation_json_def optional_def split: option.splits)

lemma source_text:
  "to_string h (if truthy (map_option JString s) then map_option JString s
                else Some (JString ''Unknown Cloud''))
     = Inr (source_label s)"
  by (cases s) (simp_all add: source_label_def)

lemma item_markup_recommendation:
  "item_markup h (recommendation_json r) =
     Inr (li_innerHTML (icon_of (mode r)) (mode r)
            (number_to_string h (Finite (duration_minutes r)))
            (toFixed2 h (Finite (cost_usd r)))
            (toFixed2 h (Finite (environmental_impact_co2_kg r)))
            (source_label (source_cloud r)))"
  unfolding item_markup_def recommendation_props and_then.simps
  by (simp add: mode_icon_table source_text del: toFixed2.simps number_to_string.simps)

lemma route_props:
  "get_prop (Some (route_response_json resp)) ''origin'' = Inr (map_option origin_json (origin resp))"
  "get_prop (Some (route_response_json resp)) ''notes''
     = Inr (map_option (\<lambda>ns. JArray (map JString ns)) (notes resp))"
  "get_prop (Some (route_response_json resp)) ''recommendations''
     = Inr (map_option (\<lambda>rs. JArray (map recommendation_json rs)) (recommendations resp))"
  by (simp_all add: route_response_json_def optional_def split: option.splits)

lemma origin_json_city:
  "get_prop (Some (origin_json og)) ''city'' = Inr (map_option JString (city og))"
  by (simp add: origin_json_def optional_def split: option.splits)

lemma display_origin_typed:
  "display_origin h (route_response_json resp) p =
     Inr (p\<lparr>originInfo_innerHTML :=
            (case origin resp of
               None \<Rightarrow> origin_not_available
             | Some og \<Rightarrow>
                 (case city og of
                    None \<Rightarrow> origin_not_available
                  | Some c \<Rightarrow> if c = [] then origin_not_available else origin_detected c))\<rparr>)"
proof (cases "origin resp")
  case None
  then show ?thesis by (simp add: display_origin_def route_props)
next
  case (Some og)
  have "truthy (Some (origin_json og))" by (simp add: origin_json_def)
  with Some show ?thesis
    by (cases "city og") (simp_all add: display_origin_def route_props origin_json_city)
qed

lemma note_paragraphs_strings:
  "note_paragraphs h (map JString ns) = Inr (map (\<lambda>n. ''<p>'' @ n @ ''</p>'') ns)"
  by (induction ns) simp_all

lemma display_notes_typed:
  "display_notes h (route_response_json resp) p =
     Inr (case notes resp of
            None \<Rightarrow> p\<lparr>notesInfo_display := ''none''\<rparr>
          | Some ns \<Rightarrow>
              if ns = [] then p\<lparr>notesInfo_display := ''none''\<rparr>
              else p\<lparr>notesInfo_innerHTML := concat (map (\<lambda>n. ''<p>'' @ n @ ''</p>'') ns),
                     notesInfo_display := ''block''\<rparr>)"
  by (cases "notes resp") (simp_all add: display_notes_def route_props note_paragraphs_strings)

lemma append_items_typed:
  "append_items h (map recommendation_json rs) p =
     (None, p\<lparr>recommendationList_items := recommendationList_items p @ map (markup h) rs\<rparr>)"
  by (induction rs arbitrary: p) (simp_all add: item_markup_recommendation markup_def)

lemma display_recommendations_typed:
  "display_recommendations h (route_response_json resp) p =
     (None, p\<lparr>recommendationList_items :=
               (case recommendations resp of
                  None \<Rightarrow> [no_recommendations]
                | Some rs \<Rightarrow> if rs = [] then [no_recommendations] else map (markup h) rs)\<rparr>)"
  by (cases "recommendations resp")
     (simp_all add: display_recommendations_def route_props append_items_typed)

lemma displayResults_typed:
  "displayResults h (route_response_json resp) p =
     (None,
      (case notes resp of
            None \<Rightarrow> p\<lparr>notesInfo_display := ''none''\<rparr>
          | Some ns \<Rightarrow>
              if ns = [] then p\<lparr>notesInfo_display := ''none''\<rparr>
              else p\<lparr>notesInfo_innerHTML := concat (map (\<lambda>n. ''<p>'' @ n @ ''</p>'') ns),
                     notesInfo_display := ''block''\<rparr>)
      \<lparr>originInfo_innerHTML :=
            (case origin resp of
               None \<Rightarrow> origin_not_available
             | Some og \<Rightarrow>
                 (case city og of
                    None \<Rightarrow> origin_not_available
                  | Some c \<Rightarrow> if c = [] then origin_not_available else origin_detected c)),
       recommendationList_items :=
               (case recommendations resp of
                  None \<Rightarrow> [no_recommendations]
                | Some rs \<Rightarrow> if rs = [] then [no_recommendations] else map (markup h) rs)\<rparr>)"
  by (simp add: displayResults_def display_origin_typed display_notes_typed
        display_recommendations_typed split: option.splits)

subsection \<open>When the renderer throws\<close>

lemma isl_and_then: "isl (and_then m f) \<longleftrightarrow> isl m \<or> isl (f (projr m))"
  by (cases m) auto

lemma get_prop_field: "v \<noteq> JNull \<Longrightarrow> get_prop (Some v) k = Inr (field v k)"
  by (cases v) (simp_all add: field_def)

lemma get_prop_member:
  "truthy v \<Longrightarrow> get_prop v k = Inr (case v of None \<Rightarrow> None | Some x \<Rightarrow> field x k)"
  by (cases v; cases "the v") (simp_all add: field_def)

lemma isl_to_str:
  "isl (to_str h v) \<longleftrightarrow> \<not> printable v"
  "isl (join_elems h xs) \<longleftrightarrow> \<not> list_all printable xs"
  by (induction h v and h xs rule: to_str_join_elems.induct)
     (auto split: sum.splits)

lemma isl_to_string: "isl (to_string h v) \<longleftrightarrow> \<not> printable_value v"
  by (cases v) (simp_all add: printable_value_def isl_to_str)

lemma isl_note_paragraphs: "isl (note_paragraphs h xs) \<longleftrightarrow> \<not> list_all printable xs"
  by (induction xs) (auto simp: isl_and_then isl_to_str)

lemma isl_call_toFixed2: "isl (call_toFixed2 h v) \<longleftrightarrow> \<not> numeric v"
  by (cases v; cases "the v") (simp_all add: numeric_def)

lemma numeric_not_null: "numeric (field rec k) \<Longrightarrow> rec \<noteq> JNull"
  by (auto simp: numeric_def field_def)

lemma source_printable:
  "printable_value (if truthy v then v else Some (JString ''Unknown Cloud'')) \<longleftrightarrow> printable_value v"
  by (cases v; cases "the v") (simp_all add: printable_value_def)

lemma isl_item_markup: "isl (item_markup h rec) \<longleftrightarrow> \<not> entry_shape rec"
proof (cases "rec = JNull")
  case True
  then show ?thesis by (simp add: item_markup_def entry_shape_def numeric_def field_def)
next
  case False
  then show ?thesis
    by (simp add: item_markup_def get_prop_field isl_and_then isl_to_string isl_call_toFixed2
          source_printable entry_shape_def del: to_string.simps)
qed

lemma append_items_shape:
  "fst (append_items h xs p) = None \<longleftrightarrow> list_all entry_shape xs"
proof (induction xs arbitrary: p)
  case Nil
  then show ?case by simp
next
  case (Cons x xs)
  show ?case
  proof (cases "item_markup h x")
    case (Inl e)
    then have "\<not> entry_shape x" using isl_item_markup [of h x] by simp
    with Inl show ?thesis by simp
  next
    case (Inr li)
    then have "entry_shape x" using isl_item_markup [of h x] by auto
    with Inr Cons show ?thesis by simp
  qed
qed

lemma append_items_frame:
  "originInfo_innerHTML (snd (append_items h xs p)) = originInfo_innerHTML p
   \<and> notesInfo_display (snd (append_items h xs p)) = notesInfo_display p"
  by (induction xs arbitrary: p) (auto split: sum.splits)

lemma display_recommendations_frame:
  "originInfo_innerHTML (snd (display_recommendations h data p)) = originInfo_innerHTML p
   \<and> notesInfo_display (snd (display_recommendations h data p)) = notesInfo_display p"
  by (auto simp: display_recommendations_def Let_def append_items_frame
           split: sum.splits option.splits json.splits)

lemma display_origin_shape:
  assumes "data \<noteq> JNull"
  shows "isl (display_origin h data p) \<longleftrightarrow> \<not> printable_value (origin_city data)"
    and "display_origin h data p = Inr q \<Longrightarrow> field data ''origin'' = None \<Longrightarrow>
           originInfo_innerHTML q = origin_not_available"
proof -
  show "isl (display_origin h data p) \<longleftrightarrow> \<not> printable_value (origin_city data)"
  proof (cases "truthy (field data ''origin'')")
    case False
    then have "origin_city data = None"
      by (cases "field data ''origin''"; cases "the (field data ''origin'')")
         (simp_all add: origin_city_def field_def)
    with False assms show ?thesis
      by (simp add: display_origin_def get_prop_field printable_value_def)
  next
    case True
    then obtain og where og: "field data ''origin'' = Some og"
      by (cases "field data ''origin''") auto
    have "printable_value (field og ''city'')" if "\<not> truthy (field og ''city'')"
      using that by (cases "field og ''city''"; cases "the (field og ''city'')")
                    (simp_all add: printable_value_def)
    with True og assms show ?thesis
      by (auto simp: display_origin_def get_prop_field get_prop_member origin_city_def
            isl_and_then isl_to_string simp del: to_string.simps)
  qed
  show "display_origin h data p = Inr q \<Longrightarrow> field data ''origin'' = None \<Longrightarrow>
           originInfo_innerHTML q = origin_not_available"
    using assms by (auto simp: display_origin_def get_prop_field)
qed

lemma display_notes_shape:
  assumes "data \<noteq> JNull"
  shows "isl (display_notes h data p) \<longleftrightarrow> \<not> sequence_shape h printable (field data ''notes'')"
    and "display_notes h data p = Inr q \<Longrightarrow> originInfo_innerHTML q = originInfo_innerHTML p"
    and "display_notes h data p = Inr q \<Longrightarrow> field data ''notes'' = None \<Longrightarrow>
           notesInfo_display q = ''none''"
proof -
  show "isl (display_notes h data p) \<longleftrightarrow> \<not> sequence_shape h printable (field data ''notes'')"
  proof (cases "field data ''notes''")
    case None
    with assms show ?thesis by (simp add: display_notes_def get_prop_field sequence_shape_def)
  next
    case (Some v)
    show ?thesis
    proof (cases v)
      case (JArray xs)
      with Some assms show ?thesis
        by (simp add: display_notes_def get_prop_field sequence_shape_def isl_and_then
              isl_note_paragraphs)
    next
      case (JObject kvs)
      with Some assms show ?thesis
        by (cases "greater_than_zero h (map_of kvs ''length'')")
           (simp_all add: display_notes_def get_prop_field sequence_shape_def)
    qed (use Some assms in \<open>simp_all add: display_notes_def get_prop_field sequence_shape_def\<close>)
  qed
  show "display_notes h data p = Inr q \<Longrightarrow> originInfo_innerHTML q = originInfo_innerHTML p"
    unfolding display_notes_def
    by (auto simp: and_then_Inr_iff split: if_splits option.splits json.splits)
  show "display_notes h data p = Inr q \<Longrightarrow> field data ''notes'' = None \<Longrightarrow>
           notesInfo_display q = ''none''"
    using assms by (auto simp: display_notes_def get_prop_field)
qed

lemma display_recommendations_shape:
  assumes "data \<noteq> JNull"
  shows "fst (display_recommendations h data p) = None
           \<longleftrightarrow> sequence_shape h entry_shape (field data ''recommendations'')"
    and "field data ''recommendations'' = None \<Longrightarrow>
           recommendationList_items (snd (display_recommendations h data p)) = [no_recommendations]"
proof -
  show "fst (display_recommendations h data p) = None
           \<longleftrightarrow> sequence_shape h entry_shape (field data ''recommendations'')"
  proof (cases "field data ''recommendations''")
    case None
    with assms show ?thesis
      by (simp add: display_recommendations_def get_prop_field sequence_shape_def)
  next
    case (Some v)
    with assms show ?thesis
      by (cases v)
         (auto simp: display_recommendations_def get_prop_field sequence_shape_def Let_def
            append_items_shape split: sum.splits)
  qed
  show "field data ''recommendations'' = None \<Longrightarrow>
           recommendationList_items (snd (display_recommendations h data p)) = [no_recommendations]"
    using assms by (simp add: display_recommendations_def get_prop_field)
qed

subsection \<open>The error of a failed request\<close>

lemma failure_message_not_empty: "failure_message r \<noteq> []"
  by (auto simp: failure_message_def non_empty_text_def
        split: option.splits json.splits if_splits)

lemma fetchRecommendations_failure:
  assumes "\<not> ok r"
    and "textual (body_member (response_json r) ''error'')"
    and "textual (body_member (response_json r) ''details'')"
  shows "fetchRecommendations h (Resolved r) = Inl (RequestError (status r) (failure_message r))"
proof (cases "response_json r")
  case (NotJSON m)
  with assms(1) show ?thesis
    by (simp add: fetchRecommendations_def failure_message_def body_member_def non_empty_text_def)
next
  case (JSON body)
  show ?thesis
  proof (cases "body = JNull")
    case True
    with JSON assms(1) show ?thesis
      by (simp add: fetchRecommendations_def failure_message_def body_member_def
            non_empty_text_def field_def)
  next
    case False
    with JSON assms show ?thesis
      by (auto simp: fetchRecommendations_def failure_message_def body_member_def
            non_empty_text_def get_prop_field textual_def Let_def
            split: option.splits json.splits)
  qed
qed

section \<open>The claims\<close>

subsection \<open>Completion of displayResults\<close>

text \<open>
  C1, as amended. \<open>displayResults\<close> completes without an exception exactly for the
  payloads of \<open>payload_shape\<close>: the payload is not \<^verbatim>\<open>null\<close>; the city of its origin is
  printable or missing; its notes are missing, falsy, a boolean, a number, an object
  whose length is not greater than zero, or an array of printable values; its
  recommendations are the same, with arrays of entries that carry numbers as \<^verbatim>\<open>cost_usd\<close>
  and \<^verbatim>\<open>environmental_impact_co2_kg\<close> and have a printable or missing \<^verbatim>\<open>mode\<close>,
  \<^verbatim>\<open>duration_minutes\<close> and \<^verbatim>\<open>source_cloud\<close>. For such a payload a missing origin gives the
  text \<open>Origin information not available.\<close>, missing notes leave the notes region hidden,
  and missing recommendations give the single entry
  \<open>No recommendations found matching your criteria.\<close>
\<close>

theorem displayResults_completes:
  "(fst (displayResults h data p) = None) = payload_shape h data
   \<and> (payload_shape h data \<longrightarrow>
        (field data ''origin'' = None \<longrightarrow>
           originInfo_innerHTML (snd (displayResults h data p))
             = ''<p>Origin information not available.</p>'')
        \<and> (field data ''notes'' = None \<longrightarrow>
             notesInfo_display (snd (displayResults h data p)) = ''none'')
        \<and> (field data ''recommendations'' = None \<longrightarrow>
             recommendationList_items (snd (displayResults h data p))
               = [''No recommendations found matching your criteria.'']))"
proof (cases "data = JNull")
  case True
  then show ?thesis
    by (simp add: displayResults_def display_origin_def payload_shape_def)
next
  case nn: False
  show ?thesis
  proof (cases "display_origin h data p")
    case (Inl e)
    then have "\<not> printable_value (origin_city data)"
      using display_origin_shape(1) [OF nn, of h p] by simp
    with Inl show ?thesis by (simp add: displayResults_def payload_shape_def)
  next
    case p1: (Inr p1)
    then have c: "printable_value (origin_city data)"
      using display_origin_shape(1) [OF nn, of h p] by auto
    show ?thesis
    proof (cases "display_notes h data p1")
      case (Inl e)
      then have "\<not> sequence_shape h printable (field data ''notes'')"
        using display_notes_shape(1) [OF nn, of h p1] by simp
      with Inl p1 show ?thesis by (simp add: displayResults_def payload_shape_def)
    next
      case p2: (Inr p2)
      then have n: "sequence_shape h printable (field data ''notes'')"
        using display_notes_shape(1) [OF nn, of h p1] by auto
      have eq: "displayResults h data p = display_recommendations h data p2"
        by (simp add: displayResults_def p1 p2)
      have "(fst (displayResults h data p) = None) = payload_shape h data"
        using display_recommendations_shape(1) [OF nn, of h p2] nn c n
        by (simp add: eq payload_shape_def)
      moreover have "field data ''origin'' = None \<longrightarrow>
           originInfo_innerHTML (snd (displayResults h data p))
             = ''<p>Origin information not available.</p>''"
        using display_origin_shape(2) [OF nn p1] display_notes_shape(2) [OF nn p2]
          display_recommendations_frame [of h data p2]
        by (simp add: eq origin_not_available_def)
      moreover have "field data ''notes'' = None \<longrightarrow>
             notesInfo_display (snd (displayResults h data p)) = ''none''"
        using display_notes_shape(3) [OF nn p2] display_recommendations_frame [of h data p2]
        by (simp add: eq)
      moreover have "field data ''recommendations'' = None \<longrightarrow>
             recommendationList_items (snd (displayResults h data p))
               = [''No recommendations found matching your criteria.'']"
        using display_recommendations_shape(2) [OF nn, of h p2]
        by (simp add: eq no_recommendations_def)
      ultimately show ?thesis by blast
    qed
  qed
qed

text \<open>
  A payload with nothing but one recommendation, and in that nothing but the two amounts:
  it is rendered, with the text for no origin and the notes region hidden.
\<close>

theorem displayResults_completes_witness:
  "fst (displayResults example_host
          (JObject [(''recommendations'',
                     JArray [JObject [(''cost_usd'', JNumber (Finite (7 / 2))),
                                      (''environmental_impact_co2_kg'', JNumber (Finite 0))]])])
          example_page) = None
   \<and> originInfo_innerHTML
        (snd (displayResults example_host
                (JObject [(''recommendations'',
                           JArray [JObject [(''cost_usd'', JNumber (Finite (7 / 2))),
                                            (''environmental_impact_co2_kg'', JNumber (Finite 0))]])])
                example_page))
       = ''<p>Origin information not available.</p>''
   \<and> notesInfo_display
        (snd (displayResults example_host
                (JObject [(''recommendations'',
                           JArray [JObject [(''cost_usd'', JNumber (Finite (7 / 2))),
                                            (''environmental_impact_co2_kg'', JNumber (Finite 0))]])])
                example_page))
       = ''none''"
proof -
  have "payload_shape example_host
          (JObject [(''recommendations'',
                     JArray [JObject [(''cost_usd'', JNumber (Finite (7 / 2))),
                                      (''environmental_impact_co2_kg'', JNumber (Finite 0))]])])"
    by (simp add: payload_shape_def field_def printable_value_def sequence_shape_def
          entry_shape_def numeric_def origin_city_def)
  with displayResults_completes
         [of example_host
             "JObject [(''recommendations'',
                        JArray [JObject [(''cost_usd'', JNumber (Finite (7 / 2))),
                                         (''environmental_impact_co2_kg'', JNumber (Finite 0))]])]"
             example_page]
  show ?thesis by (simp add: field_def)
qed

text \<open>
  C1 as stated fails: for the recommendation of the specification's example without its
  \<^verbatim>\<open>cost_usd\<close>, the read of \<^verbatim>\<open>toFixed\<close> on \<^verbatim>\<open>undefined\<close> throws, and \<open>displayResults\<close> ends with
  that exception.
\<close>

theorem missing_cost_throws:
  "fst (displayResults example_host
          (JObject [(''recommendations'', JArray [car_without_cost])]) example_page)
     = Some TypeError"
  by code_simp

subsection \<open>A previous result beside a new error\<close>

text \<open>
  C2. The script does not keep a previous result and a new error apart on the path where
  the validation fails. A first submit for Berlin is answered with the example
  response, and the page shows its origin and its recommendation. The field is then
  emptied and the form submitted again: the listener returns at the validation, before
  \<open>clearResults\<close>, and the page shows the new error together with the results area, the
  origin and the recommendation of the first submit.
\<close>

theorem stale_results_with_validation_error:
  "(let shown = submit example_host
                  (Resolved \<lparr>status = 200,
                             response_json = JSON (route_response_json example_response)\<rparr>)
                  (example_page\<lparr>destinationInput_value := ''Berlin''\<rparr>);
        again = submit example_host (Rejected ''unused'')
                  (shown\<lparr>destinationInput_value := ''''\<rparr>)
    in error_display again = ''block''
       \<and> error_textContent again = ''Error: Please enter a destination city.''
       \<and> resultsArea_display again = ''block''
       \<and> originInfo_innerHTML again = ''<p><strong>Detected Origin:</strong> Paris</p>''
       \<and> recommendationList_items again
           = [''\<newline>                <div><span class=\"mode-icon\">''
                @ [CHR 0xF0, CHR 0x9F, CHR 0x9A, CHR 0x97]
                @ ''</span><strong>Mode:</strong> car</div>''
              @ ''\<newline>                <div><strong>Duration:</strong> 120 minutes</div>''
              @ ''\<newline>                <div><strong>Est. Cost:</strong> $25.50</div>''
              @ ''\<newline>                <div><strong>CO2 Emissions:</strong> 15.75 kg</div>''
              @ ''\<newline>                <div class=\"source\">(Source: GCP)</div>''
              @ ''\<newline>            ''])"
  by code_simp

subsection \<open>The failure of a request with a non-success status\<close>

text \<open>
  C3, as amended. For every response whose status is not a success status and whose
  body, if it parses, has an \<^verbatim>\<open>error\<close> and a \<^verbatim>\<open>details\<close> member that are each missing or a
  string, \<open>fetchRecommendations\<close> throws an error that carries the status and the message
  \<open>failure_message\<close>: the \<^verbatim>\<open>error\<close> member if that is a non-empty string, else the
  \<^verbatim>\<open>details\<close> member if that is a non-empty string, else the text with the status, also
  when the body does not parse. The listener then shows \<open>Error: \<close> followed by that
  message.
\<close>

theorem failed_request_message:
  "\<not> ok r \<Longrightarrow>
   textual (body_member (response_json r) ''error'') \<Longrightarrow>
   textual (body_member (response_json r) ''details'') \<Longrightarrow>
     fetchRecommendations h (Resolved r) = Inl (RequestError (status r) (failure_message r))
     \<and> error_textContent (submit_resume h (Resolved r) p) = ''Error: '' @ failure_message r
     \<and> error_display (submit_resume h (Resolved r) p) = ''block''"
  by (simp add: fetchRecommendations_failure submit_resume_def finish_def displayError_def
        failure_message_not_empty)

text \<open>The two examples of the specification, a status 500 with an error body and with a body that is not JSON.\<close>

theorem failed_request_message_witness:
  "error_textContent
     (submit_resume example_host
        (Resolved \<lparr>status = 500,
                   response_json = JSON (JObject [(''error'', JString ''backend unavailable'')])\<rparr>)
        example_page)
     = ''Error: backend unavailable''
   \<and> error_textContent
       (submit_resume example_host
          (Resolved \<lparr>status = 500, response_json = NotJSON ''Unexpected token''\<rparr>) example_page)
     = ''Error: Server responded with status: 500''"
proof -
  have d: "digits 500 = ''500''" by code_simp
  have a: "error_textContent
     (submit_resume example_host
        (Resolved \<lparr>status = 500,
                   response_json = JSON (JObject [(''error'', JString ''backend unavailable'')])\<rparr>)
        example_page)
     = ''Error: backend unavailable''"
    using failed_request_message
      [of "\<lparr>status = 500,
            response_json = JSON (JObject [(''error'', JString ''backend unavailable'')])\<rparr>"
          example_host example_page]
    by (simp add: ok_def textual_def body_member_def field_def failure_message_def
          non_empty_text_def)
  have b: "error_textContent
       (submit_resume example_host
          (Resolved \<lparr>status = 500, response_json = NotJSON ''Unexpected token''\<rparr>) example_page)
     = ''Error: Server responded with status: 500''"
    using failed_request_message
      [of "\<lparr>status = 500, response_json = NotJSON ''Unexpected token''\<rparr>"
          example_host example_page]
    by (simp add: ok_def textual_def body_member_def field_def failure_message_def
          non_empty_text_def d)
  from a b show ?thesis by simp
qed

text \<open>
  C3 as stated fails: in this body of a status 500 the \<^verbatim>\<open>error\<close> member is present, and
  empty. The message is not taken from it but from the \<^verbatim>\<open>details\<close> member.
\<close>

theorem empty_error_member_skipped:
  "fetchRecommendations example_host
     (Resolved \<lparr>status = 500,
                response_json = JSON (JObject [(''error'', JString ''''),
                                               (''details'', JString ''routing service down'')])\<rparr>)
     = Inl (RequestError 500 ''routing service down'')"
  by code_simp

subsection \<open>Validation of the destination\<close>

text \<open>
  C4. When the destination trims to the empty string (by \<open>trim_blank\<close> that is so for
  every input made of white space only), the listener returns at the validation: no
  request is added to those sent, and \<open>displayError\<close> shows the fixed message
  \<open>Please enter a destination city.\<close>, behind the \<open>Error: \<close> it puts before every
  message.
\<close>

theorem empty_destination_never_fetches:
  "trim (destinationInput_value p) = [] \<Longrightarrow>
     submit_begin p = Returned (displayError ''Please enter a destination city.'' p)
     \<and> fetched (submit h answer p) = fetched p
     \<and> error_textContent (submit h answer p) = ''Error: Please enter a destination city.''
     \<and> error_display (submit h answer p) = ''block''"
  by (simp add: submit_def submit_begin_def displayError_def)

theorem empty_destination_never_fetches_witness:
  "fetched (submit example_host (Rejected ''offline'')
              (example_page\<lparr>destinationInput_value := [CHR 0x20, CHR 0x09, CHR 0x20]\<rparr>)) = []
   \<and> error_textContent (submit example_host (Rejected ''offline'')
              (example_page\<lparr>destinationInput_value := [CHR 0x20, CHR 0x09, CHR 0x20]\<rparr>))
       = ''Error: Please enter a destination city.''"
proof -
  have "list_all blank [CHR 0x20, CHR 0x09, CHR 0x20]" by (simp add: blank_def)
  then have "trim (destinationInput_value
                (example_page\<lparr>destinationInput_value := [CHR 0x20, CHR 0x09, CHR 0x20]\<rparr>)) = []"
    by (simp add: trim_blank)
  from empty_destination_never_fetches [OF this, of example_host "Rejected ''offline''"]
  show ?thesis by (simp add: example_page_def)
qed

subsection \<open>Loading indicator and submit button\<close>


subsection \<open>Preference persistence\<close>

text \<open>
  C6. \<open>savePreference\<close> stores what the dropdown shows under the fixed key, and
  \<open>loadPreference\<close> reads it back on the next page load: when the dropdown shows a
  value \<open>v\<close> (a non-empty option value such as \<open>cheapest\<close>) as the preference is saved,
  then on any later page \<open>q\<close> that has the same storage and offers \<open>v\<close> among its
  options, whatever its dropdown shows by default, \<open>loadPreference\<close> sets the dropdown
  to \<open>v\<close>. On a page \<open>r\<close> whose storage holds nothing under the key, \<open>loadPreference\<close>
  changes nothing, so the dropdown keeps its default.
\<close>

theorem preference_round_trip:
  "localStorage (savePreference p) PREFERENCE_STORAGE_KEY = Some (preferenceSelect_value p)
   \<and> (preferenceSelect_value p = v \<and> v \<noteq> []
        \<and> localStorage q = localStorage (savePreference p)
        \<and> v \<in> set (preferenceSelect_options q)
      \<longrightarrow> preferenceSelect_value (loadPreference q) = v)
   \<and> (localStorage r PREFERENCE_STORAGE_KEY = None \<longrightarrow> loadPreference r = r)"
  by (simp add: loadPreference_def savePreference_def select_value_def)

theorem preference_round_trip_witness:
  "preferenceSelect_value
     (loadPreference
        (example_page
           \<lparr>localStorage :=
              localStorage (savePreference (example_page\<lparr>preferenceSelect_value := ''cheapest''\<rparr>))\<rparr>))
     = ''cheapest''
   \<and> preferenceSelect_value (loadPreference example_page) = ''fastest''"
  using preference_round_trip
    [of "example_page\<lparr>preferenceSelect_value := ''cheapest''\<rparr>" "''cheapest''"
        "example_page
           \<lparr>localStorage :=
              localStorage (savePreference (example_page\<lparr>preferenceSelect_value := ''cheapest''\<rparr>))\<rparr>"
        example_page]
  by (simp add: example_page_def)

subsection \<open>The request of a submit\<close>




subsection \<open>The recommendation list\<close>

text \<open>
  C8, as amended. For every payload of the documented response shape whose
  recommendations have amounts of magnitude below \<open>10^21\<close>, \<open>displayResults\<close> completes and
  leaves this list: the single entry \<open>No recommendations found matching your criteria.\<close>
  when the recommendations are missing or empty; otherwise one entry per recommendation in
  the order received, each with the icon of its mode from the table of six (none for any
  other mode), the mode, the duration followed by \<open>minutes\<close>, the cost behind a \<open>$\<close> and
  the CO2 amount before \<open>kg\<close>, both with exactly two decimal places, and the source
  label, \<open>Unknown Cloud\<close> when that is missing or empty.
\<close>

theorem recommendation_list_rendering:
  "list_all fixed_range (case recommendations resp of None \<Rightarrow> [] | Some rs \<Rightarrow> rs) \<Longrightarrow>
     fst (displayResults h (route_response_json resp) p) = None
     \<and> recommendationList_items (snd (displayResults h (route_response_json resp) p)) =
         (case recommendations resp of
            None \<Rightarrow> [''No recommendations found matching your criteria.'']
          | Some rs \<Rightarrow>
              if rs = [] then [''No recommendations found matching your criteria.'']
              else map (\<lambda>r.
                ''\<newline>                <div><span class=\"mode-icon\">'' @ icon_of (mode r)
                  @ ''</span><strong>Mode:</strong> '' @ mode r @ ''</div>''
                @ ''\<newline>                <div><strong>Duration:</strong> ''
                  @ number_to_string h (Finite (duration_minutes r)) @ '' minutes</div>''
                @ ''\<newline>                <div><strong>Est. Cost:</strong> $''
                  @ two_decimals (cost_usd r) @ ''</div>''
                @ ''\<newline>                <div><strong>CO2 Emissions:</strong> ''
                  @ two_decimals (environmental_impact_co2_kg r) @ '' kg</div>''
                @ ''\<newline>                <div class=\"source\">(Source: ''
                  @ source_label (source_cloud r) @ '')</div>''
                @ ''\<newline>            '') rs)"
proof -
  assume range: "list_all fixed_range (case recommendations resp of None \<Rightarrow> [] | Some rs \<Rightarrow> rs)"
  have "markup h r =
                ''\<newline>                <div><span class=\"mode-icon\">'' @ icon_of (mode r)
                  @ ''</span><strong>Mode:</strong> '' @ mode r @ ''</div>''
                @ ''\<newline>                <div><strong>Duration:</strong> ''
                  @ number_to_string h (Finite (duration_minutes r)) @ '' minutes</div>''
                @ ''\<newline>                <div><strong>Est. Cost:</strong> $''
                  @ two_decimals (cost_usd r) @ ''</div>''
                @ ''\<newline>                <div><strong>CO2 Emissions:</strong> ''
                  @ two_decimals (environmental_impact_co2_kg r) @ '' kg</div>''
                @ ''\<newline>                <div class=\"source\">(Source: ''
                  @ source_label (source_cloud r) @ '')</div>''
                @ ''\<newline>            ''"
    if "fixed_range r" for r
    using that toFixed2_two_decimals [of "cost_usd r" h]
      toFixed2_two_decimals [of "environmental_impact_co2_kg r" h]
    by (simp add: markup_def li_innerHTML_def fixed_range_def
          del: toFixed2.simps number_to_string.simps)
  with range show ?thesis
    by (auto simp: displayResults_typed no_recommendations_def list_all_iff
          split: option.splits)
qed

text \<open>The example of the specification: a car, 120 minutes, $25.50, 15.75 kg, from GCP.\<close>

theorem recommendation_list_rendering_witness:
  "recommendationList_items
     (snd (displayResults example_host (route_response_json example_response) example_page))
     = [''\<newline>                <div><span class=\"mode-icon\">''
          @ [CHR 0xF0, CHR 0x9F, CHR 0x9A, CHR 0x97]
          @ ''</span><strong>Mode:</strong> car</div>''
        @ ''\<newline>                <div><strong>Duration:</strong> 120 minutes</div>''
        @ ''\<newline>                <div><strong>Est. Cost:</strong> $25.50</div>''
        @ ''\<newline>                <div><strong>CO2 Emissions:</strong> 15.75 kg</div>''
        @ ''\<newline>                <div class=\"source\">(Source: GCP)</div>''
        @ ''\<newline>            '']"
proof -
  have "list_all fixed_range
          (case recommendations example_response of None \<Rightarrow> [] | Some rs \<Rightarrow> rs)"
    by (simp add: example_response_def fixed_range_def)
  moreover have "icon_of ''car'' = [CHR 0xF0, CHR 0x9F, CHR 0x9A, CHR 0x97]"
    by (simp add: icon_of_def icon_table_def)
  moreover have "number_to_string example_host (Finite 120) = ''120''" by code_simp
  moreover have "two_decimals (51 / 2) = ''25.50''" by code_simp
  moreover have "two_decimals (63 / 4) = ''15.75''" by code_simp
  ultimately show ?thesis
    using recommendation_list_rendering [of example_response example_host example_page]
    by (simp add: example_response_def source_label_def
          del: number_to_string.simps)
qed

text \<open>
  C8 as stated fails: of these two recommendations the second has a string as
  \<^verbatim>\<open>cost_usd\<close>. The callback throws on it, and the list is left with one entry for the two
  recommendations received.
\<close>

theorem text_cost_drops_entry:
  "length
     (recommendationList_items
        (snd (displayResults example_host
                (JObject [(''recommendations'',
                           JArray [recommendation_json
                                     \<lparr>mode = ''car'', duration_minutes = 120, cost_usd = 51 / 2,
                                      environmental_impact_co2_kg = 63 / 4,
                                      source_cloud = Some ''GCP''\<rparr>,
                                   bus_with_text_cost])])
                example_page)))
     = 1
   \<and> fst (displayResults example_host
            (JObject [(''recommendations'',
                       JArray [recommendation_json
                                 \<lparr>mode = ''car'', duration_minutes = 120, cost_usd = 51 / 2,
                                  environmental_impact_co2_kg = 63 / 4,
                                  source_cloud = Some ''GCP''\<rparr>,
                               bus_with_text_cost])])
            example_page)
       = Some TypeError"
  by code_simp

subsection \<open>Origin and notes\<close>

text \<open>
  C9, as amended. For every payload of the documented response shape, \<open>displayResults\<close>
  completes; it shows \<open>Detected Origin:\<close> and the city when the origin has a city that is
  not the empty string, and the text \<open>Origin information not available.\<close> otherwise, also
  for an empty city; it shows the notes region with one paragraph per note, in order,
  when the notes are present and not empty, and hides the region when they are missing
  or empty.
\<close>

theorem origin_and_notes_rendering:
  "fst (displayResults h (route_response_json resp) p) = None
   \<and> originInfo_innerHTML (snd (displayResults h (route_response_json resp) p)) =
     (case origin resp of
        None \<Rightarrow> ''<p>Origin information not available.</p>''
      | Some og \<Rightarrow>
          (case city og of
             None \<Rightarrow> ''<p>Origin information not available.</p>''
           | Some c \<Rightarrow>
               if c = [] then ''<p>Origin information not available.</p>''
               else ''<p><strong>Detected Origin:</strong> '' @ c @ ''</p>''))
   \<and> (case notes resp of
        None \<Rightarrow> notesInfo_display (snd (displayResults h (route_response_json resp) p)) = ''none''
      | Some ns \<Rightarrow>
          if ns = []
          then notesInfo_display (snd (displayResults h (route_response_json resp) p)) = ''none''
          else notesInfo_display (snd (displayResults h (route_response_json resp) p)) = ''block''
               \<and> notesInfo_innerHTML (snd (displayResults h (route_response_json resp) p))
                   = concat (map (\<lambda>n. ''<p>'' @ n @ ''</p>'') ns))"
  by (simp add: displayResults_typed origin_detected_def origin_not_available_def
        split: option.splits)

text \<open>
  C9 as stated fails: the origin of this payload has a city, the empty string, and the
  page shows the text for no origin, not \<open>Detected Origin:\<close>.
\<close>

theorem empty_city_not_detected:
  "originInfo_innerHTML
     (snd (displayResults example_host
             (JObject [(''origin'', JObject [(''city'', JString '''')])]) example_page))
     = ''<p>Origin information not available.</p>''"
  by code_simp

subsection \<open>Empty strings\<close>

text \<open>
  C10. An empty string is treated as a missing member. A response whose origin has the
  empty string as city is rendered exactly as the same response without the city, with
  the text \<open>Origin information not available.\<close>; a recommendation whose source label is
  the empty string gives the same entry as without the label, the one whose last line is
  \<open>(Source: Unknown Cloud)\<close>.
\<close>

theorem empty_string_like_absent:
  "displayResults h (route_response_json (resp\<lparr>origin := Some (og\<lparr>city := Some ''''\<rparr>)\<rparr>)) p
     = displayResults h (route_response_json (resp\<lparr>origin := Some (og\<lparr>city := None\<rparr>)\<rparr>)) p
   \<and> originInfo_innerHTML
        (snd (displayResults h
                (route_response_json (resp\<lparr>origin := Some (og\<lparr>city := Some ''''\<rparr>)\<rparr>)) p))
       = ''<p>Origin information not available.</p>''
   \<and> item_markup h (recommendation_json (r\<lparr>source_cloud := Some ''''\<rparr>))
       = item_markup h (recommendation_json (r\<lparr>source_cloud := None\<rparr>))
   \<and> item_markup h (recommendation_json (r\<lparr>source_cloud := Some ''''\<rparr>))
       = Inr (''\<newline>                <div><span class=\"mode-icon\">'' @ icon_of (mode r)
                @ ''</span><strong>Mode:</strong> '' @ mode r @ ''</div>''
              @ ''\<newline>                <div><strong>Duration:</strong> ''
                @ number_to_string h (Finite (duration_minutes r)) @ '' minutes</div>''
              @ ''\<newline>                <div><strong>Est. Cost:</strong> $''
                @ toFixed2 h (Finite (cost_usd r)) @ ''</div>''
              @ ''\<newline>                <div><strong>CO2 Emissions:</strong> ''
                @ toFixed2 h (Finite (environmental_impact_co2_kg r)) @ '' kg</div>''
              @ ''\<newline>                <div class=\"source\">(Source: Unknown Cloud)</div>''
              @ ''\<newline>            '')
   \<and> recommendationList_items
        (snd (displayResults h
                (route_response_json
                   (resp\<lparr>recommendations := Some [r\<lparr>source_cloud := Some ''''\<rparr>]\<rparr>)) p))
       = [''\<newline>                <div><span class=\"mode-icon\">'' @ icon_of (mode r)
                @ ''</span><strong>Mode:</strong> '' @ mode r @ ''</div>''
              @ ''\<newline>                <div><strong>Duration:</strong> ''
                @ number_to_string h (Finite (duration_minutes r)) @ '' minutes</div>''
              @ ''\<newline>                <div><strong>Est. Cost:</strong> $''
                @ toFixed2 h (Finite (cost_usd r)) @ ''</div>''
              @ ''\<newline>                <div><strong>CO2 Emissions:</strong> ''
                @ toFixed2 h (Finite (environmental_impact_co2_kg r)) @ '' kg</div>''
              @ ''\<newline>                <div class=\"source\">(Source: Unknown Cloud)</div>''
              @ ''\<newline>            '']"
  by (simp add: displayResults_typed item_markup_recommendation source_label_def
        origin_not_available_def markup_def li_innerHTML_def
        del: toFixed2.simps number_to_string.simps)

end
